theory Spec2Isabelle
  imports Main "HOL-Library.Sublist"
begin

section \<open>The host: Python's evaluator and Tk's text variable\<close>

text \<open>
  \<^verbatim>\<open>scientificcalculator.py\<close> keeps no parser of its own: \<^verbatim>\<open>calculate\<close>,
  \<^verbatim>\<open>memory_add\<close> and \<^verbatim>\<open>memory_subtract\<close> hand the buffer to Python's
  \<^verbatim>\<open>eval\<close> with the namespace \<^verbatim>\<open>safe_dict\<close>, and the results are turned
  into text by \<^verbatim>\<open>str\<close> and by f-strings. These belong to the interpreter, not to the
  repository, so the model takes them as a parameter \<open>h\<close>. The type \<open>'v\<close> stands for
  the Python values that \<^verbatim>\<open>eval\<close> can return (int, float and whatever else).

  \<^item> \<open>py_eval h src\<close> is \<^verbatim>\<open>eval(src, safe_dict, {})\<close>; \<open>None\<close> when it raises
    (SyntaxError, ZeroDivisionError, ValueError, ...). An evaluation that does not
    return at all is outside the model.
  \<^item> \<open>py_str h v\<close> is \<^verbatim>\<open>str(v)\<close>, which is also what an f-string field
    \<^verbatim>\<open>{v}\<close> renders for numbers; \<open>None\<close> when it raises (CPython 3.11 and later
    refuse to print an int of more than 4300 digits).
  \<^item> \<open>py_add h a b\<close> and \<open>py_sub h a b\<close> are \<^verbatim>\<open>a + b\<close> and \<^verbatim>\<open>a - b\<close>;
    \<open>None\<close> when they raise (TypeError for a tuple or a function object).
  \<^item> \<open>py_zero h\<close> is the int literal \<^verbatim>\<open>0\<close>.
  \<^item> \<open>tk_text h v\<close> is the text a Tk \<^verbatim>\<open>StringVar\<close> holds after
    \<^verbatim>\<open>set(v)\<close> with a value that is not a string.
\<close>

record 'v host =
  py_eval :: "string \<Rightarrow> 'v option"
  py_str :: "'v \<Rightarrow> string option"
  py_add :: "'v \<Rightarrow> 'v \<Rightarrow> 'v option"
  py_sub :: "'v \<Rightarrow> 'v \<Rightarrow> 'v option"
  py_zero :: 'v
  tk_text :: "'v \<Rightarrow> string"

section \<open>The calculator's state\<close>

text \<open>
  The instance fields set in \<^verbatim>\<open>AdvancedCalculator.__init__\<close>, and the four pieces
  of widget state that the handlers write: the text variable of the display
  (\<^verbatim>\<open>display_var\<close>), the rows of the history list box (\<^verbatim>\<open>history_list\<close>), and the
  labels of the Rad/Deg button and of the mode button. Layout, styling and hover bindings
  carry no calculator state and are left out.
\<close>

record 'v calc =
  operator :: string
  memory :: 'v
  last_result :: 'v
  history :: "string list"
  angle_mode :: string
  full_mode :: bool
  display_var :: string
  history_list :: "string list"
  angle_btn :: string
  mode_toggle_btn :: string

definition init :: "'v host \<Rightarrow> 'v calc" where
  "init h =
     \<lparr>operator = '''', memory = py_zero h, last_result = py_zero h, history = [],
      angle_mode = ''rad'', full_mode = True, display_var = '''', history_list = [],
      angle_btn = ''Rad'', mode_toggle_btn = ''Switch to Compact Mode''\<rparr>"

section \<open>Handlers\<close>

subsection \<open>Mode toggles\<close>

definition toggle_mode :: "'v calc \<Rightarrow> 'v calc" where
  "toggle_mode s =
     (let s1 = s\<lparr>full_mode := \<not> full_mode s\<rparr> in
      if full_mode s1 then s1\<lparr>mode_toggle_btn := ''Switch to Compact Mode''\<rparr>
      else s1\<lparr>mode_toggle_btn := ''Switch to Full Mode''\<rparr>)"

text \<open>
  The loop over \<^verbatim>\<open>advanced_frame.winfo_children()\<close> relabels the first button whose
  text is Rad or Deg; the panel has exactly one such button, the field \<open>angle_btn\<close>.
\<close>

definition toggle_angle_mode :: "'v calc \<Rightarrow> 'v calc" where
  "toggle_angle_mode s =
     (if angle_mode s = ''rad'' then s\<lparr>angle_mode := ''deg'', angle_btn := ''Deg''\<rparr>
      else s\<lparr>angle_mode := ''rad'', angle_btn := ''Rad''\<rparr>)"

subsection \<open>Writing into the buffer\<close>

text \<open>
  \<^verbatim>\<open>append_to_operator\<close> is only ever called with a string (a button label or
  \<^verbatim>\<open>event.char\<close>), on which \<^verbatim>\<open>str\<close> is the identity.
\<close>

definition append_to_operator :: "string \<Rightarrow> 'v calc \<Rightarrow> 'v calc" where
  "append_to_operator val s =
     (let s1 = (if val = ''%'' then s\<lparr>operator := operator s @ ''/100''\<rparr>
                else s\<lparr>operator := operator s @ val\<rparr>)
      in s1\<lparr>display_var := operator s1\<rparr>)"

text \<open>
  The label of the square-root button is the single code point U+221A. Strings here are
  byte strings, so the label is written as its three UTF-8 bytes; it is only ever
  compared for equality and never enters the buffer.
\<close>

definition sqrt_label :: string where
  "sqrt_label = [char_of (226::nat), char_of (136::nat), char_of (154::nat)]"

definition append_function :: "string \<Rightarrow> 'v calc \<Rightarrow> 'v calc" where
  "append_function func s =
     (let s1 =
        (if func \<in> set [''sin'', ''cos'', ''tan''] then
           (if angle_mode s = ''deg'' then s\<lparr>operator := operator s @ ''deg_'' @ func @ ''(''\<rparr>
            else s\<lparr>operator := operator s @ ''math.'' @ func @ ''(''\<rparr>)
         else if func = sqrt_label then s\<lparr>operator := operator s @ ''math.sqrt(''\<rparr>
         else s\<lparr>operator := operator s @ ''math.'' @ func @ ''(''\<rparr>)
      in s1\<lparr>display_var := operator s1\<rparr>)"

text \<open>
  The next three handlers call \<^verbatim>\<open>str\<close> on a Python value outside any
  \<^verbatim>\<open>try\<close>. When it raises, the exception leaves the handler before the assignment
  to \<^verbatim>\<open>self.operator\<close>: the result is \<open>None\<close> and no field has changed.
\<close>

definition append_constant :: "'v host \<Rightarrow> 'v \<Rightarrow> 'v calc \<Rightarrow> 'v calc option" where
  "append_constant h const_value s =
     (case py_str h const_value of
        None \<Rightarrow> None
      | Some t \<Rightarrow>
          (let s1 = s\<lparr>operator := operator s @ t\<rparr> in Some (s1\<lparr>display_var := operator s1\<rparr>)))"

definition append_ans :: "'v host \<Rightarrow> 'v calc \<Rightarrow> 'v calc option" where
  "append_ans h s =
     (case py_str h (last_result s) of
        None \<Rightarrow> None
      | Some t \<Rightarrow>
          (let s1 = s\<lparr>operator := operator s @ t\<rparr> in Some (s1\<lparr>display_var := operator s1\<rparr>)))"

definition memory_recall :: "'v host \<Rightarrow> 'v calc \<Rightarrow> 'v calc option" where
  "memory_recall h s =
     (case py_str h (memory s) of
        None \<Rightarrow> None
      | Some t \<Rightarrow>
          (let s1 = s\<lparr>operator := operator s @ t\<rparr> in Some (s1\<lparr>display_var := operator s1\<rparr>)))"

subsection \<open>Clearing and editing the buffer\<close>

definition clear_all :: "'v calc \<Rightarrow> 'v calc" where
  "clear_all s = s\<lparr>operator := '''', display_var := ''''\<rparr>"

definition clear_entry :: "'v calc \<Rightarrow> 'v calc" where
  "clear_entry s = s\<lparr>operator := '''', display_var := ''''\<rparr>"

text \<open>\<^verbatim>\<open>self.operator[:-1]\<close> is the empty string on the empty string, as \<open>butlast\<close> is.\<close>

definition backspace :: "'v calc \<Rightarrow> 'v calc" where
  "backspace s = (let s1 = s\<lparr>operator := butlast (operator s)\<rparr> in s1\<lparr>display_var := operator s1\<rparr>)"

text \<open>
  \<^verbatim>\<open>plus_minus\<close> does nothing on an empty buffer. Its \<^verbatim>\<open>try\<close> body indexes
  and slices a non-empty string and sets the display, none of which raises, so the
  \<^verbatim>\<open>except\<close> branch has no counterpart here.
\<close>

definition plus_minus :: "'v calc \<Rightarrow> 'v calc" where
  "plus_minus s =
     (case operator s of
        [] \<Rightarrow> s
      | c # cs \<Rightarrow>
          (let s1 = (if c = CHR ''-'' then s\<lparr>operator := cs\<rparr>
                     else s\<lparr>operator := CHR ''-'' # operator s\<rparr>)
           in s1\<lparr>display_var := operator s1\<rparr>))"

subsection \<open>Evaluation\<close>

text \<open>
  A \<^verbatim>\<open>try\<close> body is a function into a sum: \<open>Inr\<close> the state when the body ran to
  its end, \<open>Inl\<close> the state reached when a statement raised. Python does not undo the
  assignments made before the raise. The three \<^verbatim>\<open>except Exception\<close> blocks are the
  same two statements.
\<close>

definition on_exception :: "'v calc \<Rightarrow> 'v calc" where
  "on_exception s = (let s1 = s\<lparr>display_var := ''Error''\<rparr> in s1\<lparr>operator := ''''\<rparr>)"

text \<open>
  The list box exists from construction on (\<^verbatim>\<open>full_mode\<close> starts True), so
  \<^verbatim>\<open>hasattr(self, 'history_list')\<close> always holds.
\<close>

definition calculate_try :: "'v host \<Rightarrow> 'v calc \<Rightarrow> 'v calc + 'v calc" where
  "calculate_try h s =
     (case py_eval h (operator s) of
        None \<Rightarrow> Inl s
      | Some result \<Rightarrow>
          (let s1 = s\<lparr>last_result := result\<rparr>;
               s2 = s1\<lparr>display_var := tk_text h result\<rparr>
           in case py_str h result of
                None \<Rightarrow> Inl s2
              | Some r \<Rightarrow>
                  (let history_entry = operator s2 @ '' = '' @ r;
                       s3 = s2\<lparr>history := history s2 @ [history_entry]\<rparr>;
                       s4 = (if full_mode s3
                             then s3\<lparr>history_list := history_list s3 @ [history_entry]\<rparr>
                             else s3)
                   in Inr (s4\<lparr>operator := r\<rparr>))))"

definition calculate :: "'v host \<Rightarrow> 'v calc \<Rightarrow> 'v calc" where
  "calculate h s = (case calculate_try h s of Inl s' \<Rightarrow> on_exception s' | Inr s' \<Rightarrow> s')"

subsection \<open>Memory register\<close>

definition memory_clear :: "'v host \<Rightarrow> 'v calc \<Rightarrow> 'v calc" where
  "memory_clear h s = s\<lparr>memory := py_zero h, display_var := ''Memory Cleared''\<rparr>"

definition memory_add_try :: "'v host \<Rightarrow> 'v calc \<Rightarrow> 'v calc + 'v calc" where
  "memory_add_try h s =
     (case (if operator s \<noteq> [] then py_eval h (operator s) else Some (py_zero h)) of
        None \<Rightarrow> Inl s
      | Some current_value \<Rightarrow>
          (case py_add h (memory s) current_value of
             None \<Rightarrow> Inl s
           | Some m \<Rightarrow>
               (let s1 = s\<lparr>memory := m\<rparr> in
                case py_str h (memory s1) of
                  None \<Rightarrow> Inl s1
                | Some t \<Rightarrow> Inr (s1\<lparr>display_var := ''M: '' @ t, operator := ''''\<rparr>))))"

definition memory_add :: "'v host \<Rightarrow> 'v calc \<Rightarrow> 'v calc" where
  "memory_add h s = (case memory_add_try h s of Inl s' \<Rightarrow> on_exception s' | Inr s' \<Rightarrow> s')"

definition memory_subtract_try :: "'v host \<Rightarrow> 'v calc \<Rightarrow> 'v calc + 'v calc" where
  "memory_subtract_try h s =
     (case (if operator s \<noteq> [] then py_eval h (operator s) else Some (py_zero h)) of
        None \<Rightarrow> Inl s
      | Some current_value \<Rightarrow>
          (case py_sub h (memory s) current_value of
             None \<Rightarrow> Inl s
           | Some m \<Rightarrow>
               (let s1 = s\<lparr>memory := m\<rparr> in
                case py_str h (memory s1) of
                  None \<Rightarrow> Inl s1
                | Some t \<Rightarrow> Inr (s1\<lparr>display_var := ''M: '' @ t, operator := ''''\<rparr>))))"

definition memory_subtract :: "'v host \<Rightarrow> 'v calc \<Rightarrow> 'v calc" where
  "memory_subtract h s =
     (case memory_subtract_try h s of Inl s' \<Rightarrow> on_exception s' | Inr s' \<Rightarrow> s')"

section \<open>Events\<close>

subsection \<open>Keyboard\<close>

text \<open>
  \<^verbatim>\<open>char in "0123456789.+-*/()%"\<close> is Python's substring test on strings, which
  the empty \<^verbatim>\<open>event.char\<close> of a modifier key passes.
\<close>

definition input_alphabet :: string where
  "input_alphabet = ''0123456789.+-*/()%''"

fun str_in :: "string \<Rightarrow> string \<Rightarrow> bool" where
  "str_in a [] = (a = [])"
| "str_in a (c # cs) = (prefix a (c # cs) \<or> str_in a cs)"

text \<open>\<^verbatim>\<open>str.lower\<close> on the ASCII letters, which is all a Tk keysym name holds.\<close>

definition lower_char :: "char \<Rightarrow> char" where
  "lower_char c =
     (if 65 \<le> (of_char c :: nat) \<and> (of_char c :: nat) \<le> 90 then char_of ((of_char c :: nat) + 32)
      else c)"

definition key_event :: "'v host \<Rightarrow> string \<Rightarrow> string \<Rightarrow> 'v calc \<Rightarrow> 'v calc" where
  "key_event h char keysym s =
     (if str_in char input_alphabet then append_to_operator char s
      else if keysym = ''Return'' then calculate h s
      else if keysym = ''BackSpace'' then backspace s
      else if map lower_char keysym = ''c'' then clear_all s
      else s)"

subsection \<open>The event loop\<close>

text \<open>
  One constructor for each command bound to a button in \<^verbatim>\<open>create_advanced_buttons\<close>
  and \<^verbatim>\<open>create_basic_buttons\<close>, one for the mode button and one for a key press
  (\<^verbatim>\<open>event.char\<close>, \<^verbatim>\<open>event.keysym\<close>). Tk runs one handler to its end before the
  next event. An exception that leaves a handler is reported by Tk and the loop goes on
  with the fields as they are.
\<close>

datatype 'v event =
    Press string
  | Func string
  | Const 'v
  | Ans
  | ClearAll
  | ClearEntry
  | BackSpace
  | Equals
  | MemClear
  | MemRecall
  | MemAdd
  | MemSubtract
  | PlusMinus
  | ToggleMode
  | ToggleAngle
  | Key string string

fun dispatch :: "'v host \<Rightarrow> 'v event \<Rightarrow> 'v calc \<Rightarrow> 'v calc" where
  "dispatch h (Press val) s = append_to_operator val s"
| "dispatch h (Func func) s = append_function func s"
| "dispatch h (Const c) s = (case append_constant h c s of None \<Rightarrow> s | Some s' \<Rightarrow> s')"
| "dispatch h Ans s = (case append_ans h s of None \<Rightarrow> s | Some s' \<Rightarrow> s')"
| "dispatch h ClearAll s = clear_all s"
| "dispatch h ClearEntry s = clear_entry s"
| "dispatch h BackSpace s = backspace s"
| "dispatch h Equals s = calculate h s"
| "dispatch h MemClear s = memory_clear h s"
| "dispatch h MemRecall s = (case memory_recall h s of None \<Rightarrow> s | Some s' \<Rightarrow> s')"
| "dispatch h MemAdd s = memory_add h s"
| "dispatch h MemSubtract s = memory_subtract h s"
| "dispatch h PlusMinus s = plus_minus s"
| "dispatch h ToggleMode s = toggle_mode s"
| "dispatch h ToggleAngle s = toggle_angle_mode s"
| "dispatch h (Key char keysym) s = key_event h char keysym s"

fun run :: "'v host \<Rightarrow> 'v event list \<Rightarrow> 'v calc \<Rightarrow> 'v calc" where
  "run h [] s = s"
| "run h (e # es) s = run h es (dispatch h e s)"

subsection \<open>The log of successful evaluations\<close>

text \<open>
  The events that reach \<^verbatim>\<open>calculate\<close>: the = button, and the Return key when
  \<^verbatim>\<open>event.char\<close> did not pass the alphabet test first.
\<close>

fun evaluates :: "'v event \<Rightarrow> bool" where
  "evaluates Equals = True"
| "evaluates (Key char keysym) = (\<not> str_in char input_alphabet \<and> keysym = ''Return'')"
| "evaluates e = False"

text \<open>
  An evaluation is successful when the \<^verbatim>\<open>try\<close> body of \<^verbatim>\<open>calculate\<close> runs to
  its end. \<open>evaluations h es s\<close> lists, in order, the buffer text at the moment of each
  successful evaluation in the run of \<open>es\<close> from \<open>s\<close>, with the value computed.
\<close>

definition evaluated :: "'v host \<Rightarrow> 'v event \<Rightarrow> 'v calc \<Rightarrow> (string \<times> 'v) list" where
  "evaluated h e s =
     (if evaluates e
      then (case calculate_try h s of Inl s' \<Rightarrow> [] | Inr s' \<Rightarrow> [(operator s, last_result s')])
      else [])"

fun evaluations :: "'v host \<Rightarrow> 'v event list \<Rightarrow> 'v calc \<Rightarrow> (string \<times> 'v) list" where
  "evaluations h [] s = []"
| "evaluations h (e # es) s = evaluated h e s @ evaluations h es (dispatch h e s)"

section \<open>A concrete host for examples\<close>

text \<open>
  To run the model on concrete inputs: Python ints as \<open>int\<close>, printed in decimal, with
  the evaluator tabulated on the buffers the examples use. Each entry is what CPython
  returns for that text; every other text, among them \<^verbatim>\<open>1/0\<close> (ZeroDivisionError)
  and the empty text (SyntaxError), is a failure in this table.
\<close>

fun dec_digits :: "nat \<Rightarrow> string" where
  "dec_digits n =
     (if n < 10 then [char_of (48 + n)] else dec_digits (n div 10) @ [char_of (48 + n mod 10)])"

declare dec_digits.simps [simp del]

definition str_int :: "int \<Rightarrow> string" where
  "str_int i = (if i < 0 then CHR ''-'' # dec_digits (nat (- i)) else dec_digits (nat i))"

definition demo_eval :: "string \<Rightarrow> int option" where
  "demo_eval src =
     (if src = ''2+3'' then Some 5
      else if src = ''5'' then Some 5
      else if src = ''-5'' then Some (- 5)
      else if src = ''12'' then Some 12
      else None)"

definition demo_host :: "int host" where
  "demo_host =
     \<lparr>py_eval = demo_eval, py_str = (\<lambda>v. Some (str_int v)),
      py_add = (\<lambda>a b. Some (a + b)), py_sub = (\<lambda>a b. Some (a - b)),
      py_zero = 0, tk_text = str_int\<rparr>"

section \<open>The format of a history entry\<close>

text \<open>
  \<open>records h entry (B, result)\<close>: the entry is the buffer text \<open>B\<close>, the three
  characters of \<^verbatim>\<open> = \<close> and the text of \<open>result\<close>.
\<close>

definition records :: "'v host \<Rightarrow> string \<Rightarrow> string \<times> 'v \<Rightarrow> bool" where
  "records h entry p =
     (case p of (B, result) \<Rightarrow>
        (case py_str h result of None \<Rightarrow> False | Some R \<Rightarrow> entry = B @ '' = '' @ R))"

section \<open>Facts about the handlers\<close>

text \<open>What the \<^verbatim>\<open>except\<close> block writes, and what it leaves alone.\<close>

lemma on_exception_simps:
  "display_var (on_exception s) = ''Error''" "operator (on_exception s) = []"
  "memory (on_exception s) = memory s" "history (on_exception s) = history s"
  "last_result (on_exception s) = last_result s"
  by (simp_all add: on_exception_def)

lemma calculate_try_Inl_history: "calculate_try h s = Inl s' \<Longrightarrow> history s' = history s"
  by (auto simp: calculate_try_def Let_def split: option.splits)

lemma calculate_try_Inr:
  "calculate_try h s = Inr s' \<Longrightarrow>
     \<exists>result r. py_eval h (operator s) = Some result \<and> py_str h result = Some r
       \<and> operator s' = r \<and> last_result s' = result
       \<and> history s' = history s @ [operator s @ '' = '' @ r]"
  by (auto simp: calculate_try_def Let_def split: option.splits)

lemma calculate_history:
  "history (calculate h s) = history s @
     (case calculate_try h s of Inl s' \<Rightarrow> [] | Inr s' \<Rightarrow> [operator s @ '' = '' @ operator s'])"
  by (auto simp: calculate_def on_exception_simps split: sum.splits
      dest: calculate_try_Inl_history calculate_try_Inr)

lemma memory_add_history: "history (memory_add h s) = history s"
  by (simp add: memory_add_def memory_add_try_def on_exception_def Let_def
      split: sum.splits option.splits if_splits)

lemma memory_subtract_history: "history (memory_subtract h s) = history s"
  by (simp add: memory_subtract_def memory_subtract_try_def on_exception_def Let_def
      split: sum.splits option.splits if_splits)

lemma dispatch_history_not_evaluates:
  "\<not> evaluates e \<Longrightarrow> history (dispatch h e s) = history s"
  by (cases e)
    (auto simp: append_to_operator_def append_function_def append_constant_def
      append_ans_def memory_recall_def clear_all_def clear_entry_def backspace_def
      memory_clear_def plus_minus_def toggle_mode_def toggle_angle_mode_def key_event_def
      memory_add_history memory_subtract_history Let_def
      split: option.splits list.splits)

lemma dispatch_evaluates: "evaluates e \<Longrightarrow> dispatch h e s = calculate h s"
  by (cases e) (simp_all add: key_event_def)

lemma dispatch_history:
  "\<exists>ext. history (dispatch h e s) = history s @ ext \<and> list_all2 (records h) ext (evaluated h e s)"
proof (cases "evaluates e")
  case False
  then show ?thesis
    by (simp add: dispatch_history_not_evaluates evaluated_def)
next
  case True
  show ?thesis
  proof (cases "calculate_try h s")
    case (Inl s')
    with True show ?thesis
      by (simp add: dispatch_evaluates calculate_history evaluated_def)
  next
    case (Inr s')
    from calculate_try_Inr [OF Inr] True Inr show ?thesis
      by (auto simp: dispatch_evaluates calculate_history evaluated_def records_def)
  qed
qed

lemma run_history:
  "\<exists>ext. history (run h es s) = history s @ ext \<and> list_all2 (records h) ext (evaluations h es s)"
proof (induction es arbitrary: s)
  case Nil
  show ?case by simp
next
  case (Cons e es)
  obtain ext1 where 1: "history (dispatch h e s) = history s @ ext1"
    and r1: "list_all2 (records h) ext1 (evaluated h e s)"
    using dispatch_history by blast
  obtain ext2 where 2: "history (run h es (dispatch h e s)) = history (dispatch h e s) @ ext2"
    and r2: "list_all2 (records h) ext2 (evaluations h es (dispatch h e s))"
    using Cons.IH by blast
  from r1 r2 have "list_all2 (records h) (ext1 @ ext2) (evaluations h (e # es) s)"
    by (simp add: list_all2_appendI)
  with 1 2 show ?case by auto
qed

section \<open>The error contract\<close>

text \<open>
  Claim C1. Whenever the \<^verbatim>\<open>try\<close> body of \<^verbatim>\<open>calculate\<close> raises, the display
  shows \<^verbatim>\<open>Error\<close> and the buffer is empty afterwards; the same holds for the bodies of
  \<^verbatim>\<open>memory_add\<close> and \<^verbatim>\<open>memory_subtract\<close>. A buffer that the evaluator rejects
  (such as \<^verbatim>\<open>1/0\<close>) makes the body of \<^verbatim>\<open>calculate\<close> raise, and, being non-empty,
  those of the two memory handlers as well.
\<close>

theorem evaluation_failure_shows_error_and_resets:
  "(isl (calculate_try h s) \<longrightarrow>
      display_var (calculate h s) = ''Error'' \<and> operator (calculate h s) = [])
   \<and> (isl (memory_add_try h s) \<longrightarrow>
      display_var (memory_add h s) = ''Error'' \<and> operator (memory_add h s) = [])
   \<and> (isl (memory_subtract_try h s) \<longrightarrow>
      display_var (memory_subtract h s) = ''Error'' \<and> operator (memory_subtract h s) = [])
   \<and> (py_eval h (operator s) = None \<longrightarrow> isl (calculate_try h s))
   \<and> (operator s \<noteq> [] \<and> py_eval h (operator s) = None \<longrightarrow>
      isl (memory_add_try h s) \<and> isl (memory_subtract_try h s))"
proof -
  have c: "isl (calculate_try h s) \<longrightarrow>
      display_var (calculate h s) = ''Error'' \<and> operator (calculate h s) = []"
    by (simp add: calculate_def on_exception_simps split: sum.splits)
  have a: "isl (memory_add_try h s) \<longrightarrow>
      display_var (memory_add h s) = ''Error'' \<and> operator (memory_add h s) = []"
    by (simp add: memory_add_def on_exception_simps split: sum.splits)
  have m: "isl (memory_subtract_try h s) \<longrightarrow>
      display_var (memory_subtract h s) = ''Error'' \<and> operator (memory_subtract h s) = []"
    by (simp add: memory_subtract_def on_exception_simps split: sum.splits)
  have f: "py_eval h (operator s) = None \<longrightarrow> isl (calculate_try h s)"
    by (simp add: calculate_try_def)
  have g: "operator s \<noteq> [] \<and> py_eval h (operator s) = None \<longrightarrow>
      isl (memory_add_try h s) \<and> isl (memory_subtract_try h s)"
    by (simp add: memory_add_try_def memory_subtract_try_def)
  from c a m f g show ?thesis by blast
qed

text \<open>The buffer \<^verbatim>\<open>1/0\<close> under the example host.\<close>

theorem evaluation_failure_shows_error_and_resets_witness:
  "py_eval demo_host ''1/0'' = None
   \<and> display_var (calculate demo_host ((init demo_host)\<lparr>operator := ''1/0''\<rparr>)) = ''Error''
   \<and> operator (calculate demo_host ((init demo_host)\<lparr>operator := ''1/0''\<rparr>)) = []
   \<and> display_var (memory_add demo_host ((init demo_host)\<lparr>operator := ''1/0''\<rparr>)) = ''Error''
   \<and> operator (memory_add demo_host ((init demo_host)\<lparr>operator := ''1/0''\<rparr>)) = []
   \<and> display_var (memory_subtract demo_host ((init demo_host)\<lparr>operator := ''1/0''\<rparr>)) = ''Error''
   \<and> operator (memory_subtract demo_host ((init demo_host)\<lparr>operator := ''1/0''\<rparr>)) = []"
proof -
  have n: "py_eval demo_host ''1/0'' = None"
    by (simp add: demo_host_def demo_eval_def)
  have o: "operator ((init demo_host)\<lparr>operator := ''1/0''\<rparr>) = ''1/0''" by simp
  from evaluation_failure_shows_error_and_resets
    [of demo_host "(init demo_host)\<lparr>operator := ''1/0''\<rparr>"] n
  show ?thesis unfolding o by simp
qed

section \<open>Appending to the buffer\<close>

text \<open>
  Claim C2, as the code has it. For every character of the input alphabet other than
  \<^verbatim>\<open>%\<close>, \<^verbatim>\<open>append_to_operator\<close> concatenates exactly that character to the end of
  the buffer; for \<^verbatim>\<open>%\<close> it concatenates the four characters \<^verbatim>\<open>/100\<close> instead. In
  both cases the previous buffer is a prefix of the new one, and the display echoes the
  new buffer.
\<close>

theorem append_to_operator_concatenates:
  assumes "c \<in> set input_alphabet"
  shows "(c \<noteq> CHR ''%'' \<longrightarrow> operator (append_to_operator [c] s) = operator s @ [c])
    \<and> (c = CHR ''%'' \<longrightarrow> operator (append_to_operator [c] s) = operator s @ ''/100'')
    \<and> prefix (operator s) (operator (append_to_operator [c] s))
    \<and> display_var (append_to_operator [c] s) = operator (append_to_operator [c] s)"
  by (simp add: append_to_operator_def)

text \<open>Appending \<^verbatim>\<open>7\<close> to the buffer \<^verbatim>\<open>50\<close>.\<close>

theorem append_to_operator_concatenates_witness:
  "CHR ''7'' \<in> set input_alphabet
   \<and> operator (append_to_operator ''7'' ((init demo_host)\<lparr>operator := ''50''\<rparr>)) = ''507''
   \<and> prefix ''50'' (operator (append_to_operator ''7'' ((init demo_host)\<lparr>operator := ''50''\<rparr>)))"
proof -
  have a: "CHR ''7'' \<in> set input_alphabet" by (simp add: input_alphabet_def)
  from append_to_operator_concatenates [OF a, of "(init demo_host)\<lparr>operator := ''50''\<rparr>"] a
  show ?thesis by simp
qed

text \<open>
  The claim as stated fails at the token \<^verbatim>\<open>%\<close>, which is in the alphabet: on the
  buffer \<^verbatim>\<open>50\<close> the new buffer is \<^verbatim>\<open>50/100\<close>, not \<^verbatim>\<open>50%\<close>.
\<close>

theorem append_percent_counterexample:
  "CHR ''%'' \<in> set input_alphabet
   \<and> operator (append_to_operator ''%'' ((init demo_host)\<lparr>operator := ''50''\<rparr>)) = ''50/100''
   \<and> operator (append_to_operator ''%'' ((init demo_host)\<lparr>operator := ''50''\<rparr>)) \<noteq> ''50'' @ ''%''"
  by (simp add: input_alphabet_def append_to_operator_def)

section \<open>Toggling the sign\<close>

text \<open>
  \<^verbatim>\<open>plus_minus\<close> strips one leading \<^verbatim>\<open>-\<close> when there is one and prepends one
  otherwise, and leaves an empty buffer alone. Two presses therefore restore the text
  exactly when it is neither the lone \<^verbatim>\<open>-\<close> nor a text beginning with two of them.
\<close>

lemma double_toggle_iff:
  "operator (plus_minus (plus_minus s)) = operator s
     \<longleftrightarrow> operator s \<noteq> ''-'' \<and> \<not> prefix ''--'' (operator s)"
  by (auto simp: plus_minus_def Let_def split: list.splits)

text \<open>
  Claim C3, as the code has it. For every buffer text other than \<^verbatim>\<open>-\<close> itself and
  the texts that begin with \<^verbatim>\<open>--\<close> (so for the empty text, for every text that does
  not begin with \<^verbatim>\<open>-\<close>, and for every text that begins with exactly one \<^verbatim>\<open>-\<close>
  followed by something else), toggling the sign twice returns the buffer to its
  original text.
\<close>

theorem plus_minus_twice:
  assumes "operator s \<noteq> ''-''" and "\<not> prefix ''--'' (operator s)"
  shows "operator (plus_minus (plus_minus s)) = operator s"
  using assms by (simp add: double_toggle_iff)

text \<open>The buffer \<^verbatim>\<open>-5\<close> becomes \<^verbatim>\<open>5\<close> and then \<^verbatim>\<open>-5\<close> again.\<close>

theorem plus_minus_twice_witness:
  "''-5'' \<noteq> ''-'' \<and> \<not> prefix ''--'' ''-5''
   \<and> operator (plus_minus ((init demo_host)\<lparr>operator := ''-5''\<rparr>)) = ''5''
   \<and> operator (plus_minus (plus_minus ((init demo_host)\<lparr>operator := ''-5''\<rparr>))) = ''-5''"
proof -
  have a: "operator ((init demo_host)\<lparr>operator := ''-5''\<rparr>) \<noteq> ''-''" by simp
  have b: "\<not> prefix ''--'' (operator ((init demo_host)\<lparr>operator := ''-5''\<rparr>))" by simp
  have c: "operator (plus_minus ((init demo_host)\<lparr>operator := ''-5''\<rparr>)) = ''5''"
    by (simp add: plus_minus_def)
  from plus_minus_twice [OF a b] c show ?thesis by simp
qed

text \<open>
  The claim as stated fails on a text beginning with two \<^verbatim>\<open>-\<close> characters: from
  \<^verbatim>\<open>--5\<close> two presses strip both and leave \<^verbatim>\<open>5\<close>.
\<close>

theorem plus_minus_twice_counterexample:
  "operator (plus_minus (plus_minus ((init demo_host)\<lparr>operator := ''--5''\<rparr>))) = ''5''
   \<and> operator (plus_minus (plus_minus ((init demo_host)\<lparr>operator := ''--5''\<rparr>))) \<noteq> ''--5''"
  by (simp add: plus_minus_def)

section \<open>History recording\<close>

text \<open>
  Claim C4. Starting from an empty history, after N successful evaluations the history
  has exactly N entries, and the i-th entry is the text \<^verbatim>\<open>B = R\<close>, where B is the
  buffer at the moment of the i-th successful evaluation and R is the text of its result.
  The run may hold any other events between the evaluations, failed evaluations among
  them.
\<close>

theorem history_records_successful_evaluations:
  assumes "history s = []"
  shows "length (history (run h es s)) = length (evaluations h es s)
    \<and> list_all2 (records h) (history (run h es s)) (evaluations h es s)"
proof -
  from run_history [of h es s] assms
  have "list_all2 (records h) (history (run h es s)) (evaluations h es s)" by auto
  then show ?thesis by (simp add: list_all2_lengthD)
qed

text \<open>
  Two successful evaluations and a failed one (the buffer \<^verbatim>\<open>5/\<close>) from the initial
  state leave the two entries \<^verbatim>\<open>2+3 = 5\<close> and \<^verbatim>\<open>5 = 5\<close>.
\<close>

theorem history_records_successful_evaluations_witness:
  "history (init demo_host) = []
   \<and> evaluations demo_host [Press ''2'', Press ''+'', Press ''3'', Equals, Equals, Press ''/'', Equals]
        (init demo_host) = [(''2+3'', 5), (''5'', 5)]
   \<and> history (run demo_host [Press ''2'', Press ''+'', Press ''3'', Equals, Equals, Press ''/'', Equals]
        (init demo_host)) = [''2+3 = 5'', ''5 = 5'']"
proof -
  have e: "history (init demo_host) = []" by (simp add: init_def)
  have l: "evaluations demo_host [Press ''2'', Press ''+'', Press ''3'', Equals, Equals, Press ''/'', Equals]
        (init demo_host) = [(''2+3'', 5), (''5'', 5)]"
    by code_simp
  have s: "str_int 5 = ''5''" by code_simp
  from history_records_successful_evaluations [OF e, of demo_host
      "[Press ''2'', Press ''+'', Press ''3'', Equals, Equals, Press ''/'', Equals]"]
  show ?thesis
    unfolding l using e l
    by (simp add: list_all2_Cons2 records_def demo_host_def s)
qed

section \<open>The memory register\<close>

text \<open>
  Claim C5. \<^verbatim>\<open>memory_add\<close> takes the value of the buffer, or zero when the buffer is
  empty, and stores the sum of the register and that value in the register;
  \<^verbatim>\<open>memory_subtract\<close> stores the difference. Both leave the buffer empty, whatever
  happened. \<^verbatim>\<open>memory_recall\<close> appends the text of the register to the buffer and keeps
  the register, and \<^verbatim>\<open>memory_clear\<close> sets the register to zero. The premises say that
  the evaluation, the arithmetic and the conversion to text return a value; when they do
  not, the error contract above applies.
\<close>

theorem memory_register_operations:
  "(operator s = [] \<and> py_add h (memory s) (py_zero h) = Some m \<longrightarrow>
      memory (memory_add h s) = m)
   \<and> (operator s \<noteq> [] \<and> py_eval h (operator s) = Some v \<and> py_add h (memory s) v = Some m \<longrightarrow>
      memory (memory_add h s) = m)
   \<and> (operator s = [] \<and> py_sub h (memory s) (py_zero h) = Some m \<longrightarrow>
      memory (memory_subtract h s) = m)
   \<and> (operator s \<noteq> [] \<and> py_eval h (operator s) = Some v \<and> py_sub h (memory s) v = Some m \<longrightarrow>
      memory (memory_subtract h s) = m)
   \<and> operator (memory_add h s) = [] \<and> operator (memory_subtract h s) = []
   \<and> (py_str h (memory s) = Some t \<longrightarrow>
      (\<exists>s'. memory_recall h s = Some s' \<and> operator s' = operator s @ t \<and> memory s' = memory s))
   \<and> memory (memory_clear h s) = py_zero h"
proof -
  have a0: "operator s = [] \<and> py_add h (memory s) (py_zero h) = Some m \<longrightarrow>
      memory (memory_add h s) = m"
    by (simp add: memory_add_def memory_add_try_def on_exception_def Let_def split: option.splits)
  have a1: "operator s \<noteq> [] \<and> py_eval h (operator s) = Some v \<and> py_add h (memory s) v = Some m \<longrightarrow>
      memory (memory_add h s) = m"
    by (simp add: memory_add_def memory_add_try_def on_exception_def Let_def split: option.splits)
  have s0: "operator s = [] \<and> py_sub h (memory s) (py_zero h) = Some m \<longrightarrow>
      memory (memory_subtract h s) = m"
    by (simp add: memory_subtract_def memory_subtract_try_def on_exception_def Let_def
        split: option.splits)
  have s1: "operator s \<noteq> [] \<and> py_eval h (operator s) = Some v \<and> py_sub h (memory s) v = Some m \<longrightarrow>
      memory (memory_subtract h s) = m"
    by (simp add: memory_subtract_def memory_subtract_try_def on_exception_def Let_def
        split: option.splits)
  have ra: "operator (memory_add h s) = []"
    by (simp add: memory_add_def memory_add_try_def on_exception_def Let_def
        split: option.splits sum.splits if_splits)
  have rs: "operator (memory_subtract h s) = []"
    by (simp add: memory_subtract_def memory_subtract_try_def on_exception_def Let_def
        split: option.splits sum.splits if_splits)
  have r: "py_str h (memory s) = Some t \<longrightarrow>
      (\<exists>s'. memory_recall h s = Some s' \<and> operator s' = operator s @ t \<and> memory s' = memory s)"
    by (simp add: memory_recall_def)
  have c: "memory (memory_clear h s) = py_zero h"
    by (simp add: memory_clear_def)
  from a0 a1 s0 s1 ra rs r c show ?thesis by blast
qed

text \<open>With 30 in the register and the buffer \<^verbatim>\<open>12\<close>, and with an empty buffer.\<close>

theorem memory_register_operations_witness:
  "memory (memory_add demo_host ((init demo_host)\<lparr>operator := ''12'', memory := 30\<rparr>)) = 42
   \<and> memory (memory_subtract demo_host ((init demo_host)\<lparr>operator := ''12'', memory := 30\<rparr>)) = 18
   \<and> memory (memory_add demo_host ((init demo_host)\<lparr>memory := 30\<rparr>)) = 30
   \<and> memory (memory_subtract demo_host ((init demo_host)\<lparr>memory := 30\<rparr>)) = 30
   \<and> operator (memory_add demo_host ((init demo_host)\<lparr>operator := ''12'', memory := 30\<rparr>)) = []
   \<and> map_option operator (memory_recall demo_host ((init demo_host)\<lparr>operator := ''12'', memory := 30\<rparr>))
       = Some ''1230''
   \<and> memory (memory_clear demo_host ((init demo_host)\<lparr>operator := ''12'', memory := 30\<rparr>)) = 0"
proof -
  have t: "str_int 30 = ''30''" by code_simp
  have e: "py_eval demo_host ''12'' = Some 12" by (simp add: demo_host_def demo_eval_def)
  have h: "py_add demo_host = (\<lambda>a b. Some (a + b))" "py_sub demo_host = (\<lambda>a b. Some (a - b))"
    "py_zero demo_host = 0" "py_str demo_host = (\<lambda>v. Some (str_int v))"
    by (simp_all add: demo_host_def)
  from memory_register_operations
      [of "(init demo_host)\<lparr>operator := ''12'', memory := 30\<rparr>" demo_host 42 12 "''30''"]
    memory_register_operations
      [of "(init demo_host)\<lparr>operator := ''12'', memory := 30\<rparr>" demo_host 18 12 "''30''"]
    memory_register_operations
      [of "(init demo_host)\<lparr>memory := 30\<rparr>" demo_host 30 12 "''30''"]
  show ?thesis
    by (auto simp: e h t init_def)
qed

section \<open>The angle mode\<close>

text \<open>
  Claim C6. For each of \<^verbatim>\<open>sin\<close>, \<^verbatim>\<open>cos\<close> and \<^verbatim>\<open>tan\<close>, \<^verbatim>\<open>append_function\<close>
  writes the degree-aware name (\<^verbatim>\<open>deg_sin(\<close> and so on) in degrees mode and the native
  name (\<^verbatim>\<open>math.sin(\<close> and so on) in radians mode. Nothing else reads the angle mode:
  every event other than these three function buttons and the Rad/Deg button itself does
  the same from two states that differ only in the angle mode, and the Rad/Deg button
  writes only the mode and its own label.
\<close>

theorem angle_mode_only_renders_trig:
  "(func \<in> set [''sin'', ''cos'', ''tan''] \<and> angle_mode s = ''deg'' \<longrightarrow>
      operator (append_function func s) = operator s @ ''deg_'' @ func @ ''('')
   \<and> (func \<in> set [''sin'', ''cos'', ''tan''] \<and> angle_mode s = ''rad'' \<longrightarrow>
      operator (append_function func s) = operator s @ ''math.'' @ func @ ''('')
   \<and> (e \<noteq> ToggleAngle \<and> e \<notin> Func ` set [''sin'', ''cos'', ''tan''] \<longrightarrow>
      dispatch h e (s\<lparr>angle_mode := a\<rparr>) = (dispatch h e s)\<lparr>angle_mode := a\<rparr>)
   \<and> (toggle_angle_mode s)\<lparr>angle_mode := angle_mode s, angle_btn := angle_btn s\<rparr> = s"
proof -
  have d: "func \<in> set [''sin'', ''cos'', ''tan''] \<and> angle_mode s = ''deg'' \<longrightarrow>
      operator (append_function func s) = operator s @ ''deg_'' @ func @ ''(''"
    by (auto simp: append_function_def)
  have r: "func \<in> set [''sin'', ''cos'', ''tan''] \<and> angle_mode s = ''rad'' \<longrightarrow>
      operator (append_function func s) = operator s @ ''math.'' @ func @ ''(''"
    by (auto simp: append_function_def)
  have n: "e \<noteq> ToggleAngle \<and> e \<notin> Func ` set [''sin'', ''cos'', ''tan''] \<longrightarrow>
      dispatch h e (s\<lparr>angle_mode := a\<rparr>) = (dispatch h e s)\<lparr>angle_mode := a\<rparr>"
    by (cases e)
      (auto simp: append_to_operator_def append_function_def append_constant_def
        append_ans_def memory_recall_def clear_all_def clear_entry_def backspace_def
        memory_clear_def plus_minus_def toggle_mode_def key_event_def
        calculate_def calculate_try_def memory_add_def memory_add_try_def
        memory_subtract_def memory_subtract_try_def on_exception_def Let_def
        split: option.splits list.splits)
  have t: "(toggle_angle_mode s)\<lparr>angle_mode := angle_mode s, angle_btn := angle_btn s\<rparr> = s"
    by (simp add: toggle_angle_mode_def)
  from d r n t show ?thesis by blast
qed

text \<open>
  The \<^verbatim>\<open>sin\<close> button in both modes, and the = button on the buffer \<^verbatim>\<open>2+3\<close> in
  degrees and in radians mode.
\<close>

theorem angle_mode_only_renders_trig_witness:
  "operator (append_function ''sin'' ((init demo_host)\<lparr>angle_mode := ''deg''\<rparr>)) = ''deg_sin(''
   \<and> operator (append_function ''sin'' (init demo_host)) = ''math.sin(''
   \<and> dispatch demo_host Equals ((init demo_host)\<lparr>operator := ''2+3'', angle_mode := ''deg''\<rparr>)
       = (dispatch demo_host Equals ((init demo_host)\<lparr>operator := ''2+3''\<rparr>))\<lparr>angle_mode := ''deg''\<rparr>"
proof -
  have a: "angle_mode (init demo_host) = ''rad''" "operator (init demo_host) = []"
    by (simp_all add: init_def)
  from angle_mode_only_renders_trig
      [of "''sin''" "(init demo_host)\<lparr>angle_mode := ''deg''\<rparr>" Equals demo_host "''deg''"]
    angle_mode_only_renders_trig
      [of "''sin''" "init demo_host" Equals demo_host "''deg''"]
    angle_mode_only_renders_trig
      [of "''sin''" "(init demo_host)\<lparr>operator := ''2+3''\<rparr>" Equals demo_host "''deg''"]
  show ?thesis
    by (simp add: a)
qed

section \<open>Clearing and backspace\<close>

text \<open>
  Claim C7. \<^verbatim>\<open>clear_all\<close> and \<^verbatim>\<open>clear_entry\<close> empty the buffer and leave the memory
  register as it is.
\<close>

theorem clearing_keeps_memory:
  "memory (clear_all s) = memory s \<and> memory (clear_entry s) = memory s
   \<and> operator (clear_all s) = [] \<and> operator (clear_entry s) = []"
  by (simp add: clear_all_def clear_entry_def)

text \<open>Clearing the buffer \<^verbatim>\<open>12\<close> with 30 in the register.\<close>

theorem clearing_keeps_memory_witness:
  "memory (clear_all ((init demo_host)\<lparr>operator := ''12'', memory := 30\<rparr>)) = 30
   \<and> memory (clear_entry ((init demo_host)\<lparr>operator := ''12'', memory := 30\<rparr>)) = 30
   \<and> operator (clear_all ((init demo_host)\<lparr>operator := ''12'', memory := 30\<rparr>)) = []"
  using clearing_keeps_memory [of "(init demo_host)\<lparr>operator := ''12'', memory := 30\<rparr>"]
  by simp

text \<open>
  Claim C9. \<^verbatim>\<open>backspace\<close> on the empty buffer leaves it empty; on a buffer that ends
  with a character it removes exactly that character.
\<close>

theorem backspace_removes_last:
  "(operator s = [] \<longrightarrow> operator (backspace s) = [])
   \<and> (operator s = b @ [c] \<longrightarrow> operator (backspace s) = b)
   \<and> display_var (backspace s) = operator (backspace s)"
  by (simp add: backspace_def)

text \<open>On the empty buffer and on \<^verbatim>\<open>12+\<close>.\<close>

theorem backspace_removes_last_witness:
  "operator (backspace (init demo_host)) = []
   \<and> operator (backspace ((init demo_host)\<lparr>operator := ''12+''\<rparr>)) = ''12''"
proof -
  have a: "operator (init demo_host) = []" by (simp add: init_def)
  have b: "operator ((init demo_host)\<lparr>operator := ''12+''\<rparr>) = ''12'' @ [CHR ''+'']" by simp
  from backspace_removes_last [of "init demo_host" "[]" "CHR ''+''"]
    backspace_removes_last [of "(init demo_host)\<lparr>operator := ''12+''\<rparr>" "''12''" "CHR ''+''"] a b
  show ?thesis by simp
qed

section \<open>The history is append-only\<close>

text \<open>
  Claim C8. Every event either leaves the history as it is or adds one entry at its end,
  so the history before any run of events is a prefix of the history after it: no entry
  is ever changed or removed.
\<close>

theorem history_is_append_only:
  "(history (dispatch h e s) = history s \<or> (\<exists>x. history (dispatch h e s) = history s @ [x]))
   \<and> prefix (history s) (history (run h es s))"
proof -
  have "history (dispatch h e s) = history s \<or> (\<exists>x. history (dispatch h e s) = history s @ [x])"
  proof (cases "evaluates e")
    case False
    then show ?thesis by (simp add: dispatch_history_not_evaluates)
  next
    case True
    then show ?thesis
      by (simp add: dispatch_evaluates calculate_history split: sum.splits)
  qed
  moreover from run_history [of h es s] have "prefix (history s) (history (run h es s))"
    by (auto simp: prefix_def)
  ultimately show ?thesis by blast
qed

text \<open>
  From a state whose history holds one entry, a run with a successful evaluation, a
  clear, a failed evaluation and the memory and mode buttons.
\<close>

theorem history_is_append_only_witness:
  "history (run demo_host [Press ''5'', Equals, ClearAll, Equals, MemAdd, ToggleMode, ToggleAngle]
      ((init demo_host)\<lparr>history := [''2+3 = 5'']\<rparr>)) = [''2+3 = 5'', ''5 = 5'']
   \<and> prefix [''2+3 = 5'']
        (history (run demo_host [Press ''5'', Equals, ClearAll, Equals, MemAdd, ToggleMode, ToggleAngle]
           ((init demo_host)\<lparr>history := [''2+3 = 5'']\<rparr>)))"
proof -
  have l: "history (run demo_host [Press ''5'', Equals, ClearAll, Equals, MemAdd, ToggleMode, ToggleAngle]
      ((init demo_host)\<lparr>history := [''2+3 = 5'']\<rparr>)) = [''2+3 = 5'', ''5 = 5'']"
    by code_simp
  from history_is_append_only [of demo_host Equals "(init demo_host)\<lparr>history := [''2+3 = 5'']\<rparr>"
      "[Press ''5'', Equals, ClearAll, Equals, MemAdd, ToggleMode, ToggleAngle]"] l
  show ?thesis by simp
qed

section \<open>After a successful evaluation\<close>

text \<open>
  Claim C10. When the \<^verbatim>\<open>try\<close> body of \<^verbatim>\<open>calculate\<close> runs to its end, the buffer
  is the text of the computed result, the last-result register holds that result, and the
  next append continues from the result's text. The body runs to its end whenever the
  evaluator returns a value and that value can be printed.
\<close>

theorem successful_evaluation_replaces_buffer:
  "(\<not> isl (calculate_try h s) \<longrightarrow>
      (\<exists>result r. py_eval h (operator s) = Some result \<and> py_str h result = Some r
         \<and> operator (calculate h s) = r \<and> last_result (calculate h s) = result
         \<and> operator (append_to_operator [c] (calculate h s))
             = r @ (if c = CHR ''%'' then ''/100'' else [c])))
   \<and> (py_eval h (operator s) = Some result \<and> py_str h result = Some r \<longrightarrow>
      \<not> isl (calculate_try h s))"
proof -
  have 1: "\<not> isl (calculate_try h s) \<longrightarrow>
      (\<exists>result r. py_eval h (operator s) = Some result \<and> py_str h result = Some r
         \<and> operator (calculate h s) = r \<and> last_result (calculate h s) = result
         \<and> operator (append_to_operator [c] (calculate h s))
             = r @ (if c = CHR ''%'' then ''/100'' else [c]))"
  proof
    assume "\<not> isl (calculate_try h s)"
    then obtain s' where s': "calculate_try h s = Inr s'"
      by (cases "calculate_try h s") simp_all
    from calculate_try_Inr [OF s'] s' show "\<exists>result r. py_eval h (operator s) = Some result \<and> py_str h result = Some r
         \<and> operator (calculate h s) = r \<and> last_result (calculate h s) = result
         \<and> operator (append_to_operator [c] (calculate h s))
             = r @ (if c = CHR ''%'' then ''/100'' else [c])"
      by (auto simp: calculate_def append_to_operator_def)
  qed
  have 2: "py_eval h (operator s) = Some result \<and> py_str h result = Some r \<longrightarrow>
      \<not> isl (calculate_try h s)"
    by (simp add: calculate_try_def Let_def)
  from 1 2 show ?thesis by blast
qed

text \<open>The buffer \<^verbatim>\<open>2+3\<close> under the example host.\<close>

theorem successful_evaluation_replaces_buffer_witness:
  "\<not> isl (calculate_try demo_host ((init demo_host)\<lparr>operator := ''2+3''\<rparr>))
   \<and> operator (calculate demo_host ((init demo_host)\<lparr>operator := ''2+3''\<rparr>)) = ''5''
   \<and> last_result (calculate demo_host ((init demo_host)\<lparr>operator := ''2+3''\<rparr>)) = 5"
proof -
  have t: "str_int 5 = ''5''" by code_simp
  have e: "py_eval demo_host ''2+3'' = Some 5" by (simp add: demo_host_def demo_eval_def)
  have p: "py_str demo_host 5 = Some ''5''" by (simp add: demo_host_def t)
  from successful_evaluation_replaces_buffer
    [of demo_host "(init demo_host)\<lparr>operator := ''2+3''\<rparr>" "CHR ''1''" 5 "''5''"] e p
  show ?thesis by auto
qed

end
